theory Spec2Isabelle
  imports Main
begin

section \<open>JavaScript values used by the client\<close>

text \<open>
  The client is a React application. Numbers that index cells, moves and snapshots are
  modelled as \<open>int\<close> or \<open>nat\<close>, strings as \<open>string\<close>. A value that may be
  \<open>null\<close> or \<open>undefined\<close> is an \<open>option\<close>.
\<close>

definition js_rem :: "int \<Rightarrow> int \<Rightarrow> int" where
  \<comment> \<open>JavaScript's \<open>%\<close> on integers: the remainder takes the sign of the dividend.\<close>
  "js_rem a b = sgn a * (\<bar>a\<bar> mod \<bar>b\<bar>)"

definition digit_char :: "nat \<Rightarrow> char" where
  "digit_char d = ''0123456789'' ! (d mod 10)"

fun nat_digits :: "nat \<Rightarrow> string" where
  "nat_digits n =
     (if n < 10 then [digit_char n] else nat_digits (n div 10) @ [digit_char (n mod 10)])"

definition js_num_str :: "int \<Rightarrow> string" where
  \<comment> \<open>An integer interpolated into a template literal.\<close>
  "js_num_str i = (if i < 0 then CHR ''-'' # nat_digits (nat (- i)) else nat_digits (nat i))"

definition template_nullable :: "string option \<Rightarrow> string" where
  \<comment> \<open>\<open>`${v}`\<close> for a string that the server may send as \<open>null\<close>.\<close>
  "template_nullable v = (case v of None \<Rightarrow> ''null'' | Some s \<Rightarrow> s)"

definition falsy :: "string option \<Rightarrow> bool" where
  \<comment> \<open>\<open>!v\<close> for a string or \<open>null\<close>/\<open>undefined\<close>: the empty string is falsy too.\<close>
  "falsy v = (case v of None \<Rightarrow> True | Some s \<Rightarrow> s = [])"

datatype js_prop = Js_absent | Js_null | Js_string string

definition template_prop :: "js_prop \<Rightarrow> string" where
  \<comment> \<open>\<open>`${v}`\<close> for a property of a parsed message that should hold a string: an
      absent property prints as \<open>undefined\<close>, a \<open>null\<close> one as \<open>null\<close>.\<close>
  "template_prop v =
     (case v of Js_absent \<Rightarrow> ''undefined'' | Js_null \<Rightarrow> ''null'' | Js_string s \<Rightarrow> s)"

text \<open>
  The two string methods the client calls, \<open>String.prototype.toUpperCase\<close> and
  \<open>String.prototype.trim\<close>, belong to the JavaScript runtime. They are taken as
  parameters: nothing is assumed about their case mapping (which may change the length
  of a string) or about the set of white space they strip.
\<close>

record js_string =
  toUpperCase :: "string \<Rightarrow> string"
  trim :: "string \<Rightarrow> string"

section \<open>The game document as the client reads it\<close>

text \<open>
  The enumerations are sent as the strings \<open>'X'\<close>/\<open>'O'\<close>, \<open>'local'\<close>/\<open>'online'\<close> and
  \<open>'waiting'\<close>/\<open>'in_progress'\<close>/\<open>'completed'\<close>. A cell of the board is \<open>null\<close> or a mark.
  The field \<open>id\<close> of a game and of a player is named \<open>game_id\<close> and \<open>player_id\<close> here.
\<close>

datatype mark = X_mark | O_mark

datatype game_mode = Local | Online

datatype game_status = Waiting | In_progress | Completed

type_synonym board = "mark option list"

record move_entry =
  symbol :: mark
  position :: nat
  timestamp :: nat

record game_state =
  board :: board
  current_turn :: mark
  winner :: "mark option"
  is_draw :: bool
  winning_line :: "nat list option"

record game =
  game_id :: string
  code :: string
  mode :: game_mode
  status :: game_status
  player_x_id :: string
  player_o_id :: "string option"
  player_x_username :: string
  player_o_username :: "string option"
  state :: game_state
  moves :: "move_entry list"
  created_at :: nat
  completed_at :: "nat option"
  rematch_game_id :: "string option"

record player =
  player_id :: string
  username :: string

section \<open>MoveHistory: cell index to board coordinate\<close>

text \<open>
  \<open>positionToCoord\<close> of \<open>MoveHistory\<close> (GameStatus.js, lines 198-202):
  \<open>row = Math.floor(pos / 3) + 1\<close>, \<open>col = (pos % 3) + 1\<close>, rendered as \<open>`(${row},${col})`\<close>.
\<close>

definition coord_row :: "int \<Rightarrow> int" where
  "coord_row pos = pos div 3 + 1"

definition coord_col :: "int \<Rightarrow> int" where
  "coord_col pos = js_rem pos 3 + 1"

definition coord :: "int \<Rightarrow> int \<times> int" where
  "coord pos = (coord_row pos, coord_col pos)"

definition positionToCoord :: "int \<Rightarrow> string" where
  "positionToCoord pos =
     ''('' @ js_num_str (coord_row pos) @ '','' @ js_num_str (coord_col pos) @ '')''"

datatype history_label = Start | Played mark string

definition MoveHistory_items :: "move_entry list \<Rightarrow> (int \<times> history_label) list" where
  \<comment> \<open>The buttons of the list, each with the index its click passes to \<open>onMoveClick\<close>:
      the fixed entry 0 labelled Start, then entry \<open>index + 1\<close> for every move.\<close>
  "MoveHistory_items ms =
     (0, Start) #
     map (\<lambda>(index, m). (int index + 1, Played (symbol m) (positionToCoord (int (position m)))))
       (enumerate 0 ms)"

section \<open>api.js: the requests the client sends\<close>

datatype body_value = BStr string | BNum nat

datatype http_method = GET | POST

record request =
  http_method :: http_method
  path :: string
  body :: "(string \<times> body_value) list"

definition getGameByCode :: "js_string \<Rightarrow> string \<Rightarrow> request" where
  \<comment> \<open>\<open>api.get(`/games/by-code/${code.toUpperCase()}`)\<close>\<close>
  "getGameByCode js c =
     \<lparr>http_method = GET, path = ''/games/by-code/'' @ toUpperCase js c, body = []\<rparr>"

definition joinGameByCode :: "js_string \<Rightarrow> string \<Rightarrow> string \<Rightarrow> request" where
  \<comment> \<open>\<open>api.post('/games/join-by-code', { player_id: playerId, code: code.toUpperCase() })\<close>\<close>
  "joinGameByCode js c playerId =
     \<lparr>http_method = POST, path = ''/games/join-by-code'',
      body = [(''player_id'', BStr playerId), (''code'', BStr (toUpperCase js c))]\<rparr>"

definition makeMove :: "string \<Rightarrow> string \<Rightarrow> nat \<Rightarrow> request" where
  \<comment> \<open>\<open>api.post(`/games/${gameId}/move`, { player_id: playerId, position })\<close>\<close>
  "makeMove gameId playerId pos =
     \<lparr>http_method = POST, path = ''/games/'' @ gameId @ ''/move'',
      body = [(''player_id'', BStr playerId), (''position'', BNum pos)]\<rparr>"

definition transmitted_code :: "request \<Rightarrow> body_value option" where
  "transmitted_code r = map_of (body r) ''code''"

definition strip_scheme :: "string \<Rightarrow> string" where
  \<comment> \<open>\<open>BACKEND_URL.replace(/^https?:\/\//, '')\<close>\<close>
  "strip_scheme u =
     (if take 8 u = ''https://'' then drop 8 u
      else if take 7 u = ''http://'' then drop 7 u
      else u)"

definition getWebSocketUrl :: "string \<Rightarrow> string \<Rightarrow> string \<Rightarrow> string" where
  \<comment> \<open>The first argument is the constant \<open>BACKEND_URL\<close>, read from the environment.\<close>
  "getWebSocketUrl backend_url gameId playerId =
     (if take 5 backend_url = ''https'' then ''wss'' else ''ws'') @ ''://'' @
     strip_scheme backend_url @ ''/api/ws/'' @ gameId @ ''/'' @ playerId"

section \<open>Effects of the event handlers\<close>

text \<open>
  A handler returns the new component state together with the effects it caused, in
  order: requests sent to the server, toasts shown, navigations.
\<close>

datatype toast_kind = Success | Error | Warning | Info

datatype effect =
    Request request
  | Toast toast_kind string
  | Navigate string

definition navigations_of :: "effect list \<Rightarrow> string list" where
  "navigations_of es = concat (map (\<lambda>e. case e of Navigate p \<Rightarrow> [p] | _ \<Rightarrow> []) es)"

section \<open>HomePage: the join-by-code dialog\<close>

record home_page =
  home_player :: "player option"
  home_loading :: bool
  gameCode :: string

record input_element =
  input_value :: string
  input_maxLength :: nat

definition game_code_input :: "home_page \<Rightarrow> input_element" where
  \<comment> \<open>The code input as rendered, lines 334-341: \<open>value={gameCode}\<close>,
      \<open>maxLength={6}\<close>. Keeping the user's typing within the attribute is the
      browser's part.\<close>
  "game_code_input hp = \<lparr>input_value = gameCode hp, input_maxLength = 6\<rparr>"

definition gameCode_onChange :: "js_string \<Rightarrow> home_page \<Rightarrow> string \<Rightarrow> home_page" where
  \<comment> \<open>\<open>onChange={(e) => setGameCode(e.target.value.toUpperCase())}\<close>\<close>
  "gameCode_onChange js hp v = hp\<lparr>gameCode := toUpperCase js v\<rparr>"

definition join_disabled :: "home_page \<Rightarrow> bool" where
  \<comment> \<open>\<open>disabled={loading || gameCode.length !== 6}\<close>\<close>
  "join_disabled hp = (home_loading hp \<or> length (gameCode hp) \<noteq> 6)"

definition handleJoinByCode :: "js_string \<Rightarrow> home_page \<Rightarrow> home_page \<times> effect list" where
  \<comment> \<open>Lines 69-77, up to the \<open>await\<close>: the guard \<open>!player || !gameCode.trim()\<close>,
      \<open>setLoading(true)\<close> and the request \<open>joinGameByCode(gameCode.trim(), player.id)\<close>.\<close>
  "handleJoinByCode js hp =
     (case home_player hp of
        None \<Rightarrow> (hp, [Toast Error ''Please enter a game code''])
      | Some p \<Rightarrow>
          if trim js (gameCode hp) = [] then (hp, [Toast Error ''Please enter a game code''])
          else (hp\<lparr>home_loading := True\<rparr>,
                [Request (joinGameByCode js (trim js (gameCode hp)) (player_id p))]))"

definition click_join :: "js_string \<Rightarrow> home_page \<Rightarrow> home_page \<times> effect list" where
  \<comment> \<open>A click on the Join button: a disabled button dispatches no click.\<close>
  "click_join js hp = (if join_disabled hp then (hp, []) else handleJoinByCode js hp)"

section \<open>useWebSocket: the push-channel hook\<close>

text \<open>
  An inbound message after \<open>JSON.parse\<close>: the page reads its \<open>type\<close>, \<open>game\<close> and
  \<open>new_game_id\<close> properties, each of which may be absent (\<open>new_game_id\<close> may also be
  \<open>null\<close>; an absent and a \<open>null\<close> \<open>type\<close> or \<open>game\<close> are treated alike by the code).
\<close>

record ws_message =
  msg_type :: "string option"
  msg_game :: "game option"
  new_game_id :: js_prop

text \<open>An outbound message before \<open>JSON.stringify\<close>: \<open>{ type }\<close> or \<open>{ type, position }\<close>.\<close>

record outbound =
  out_type :: string
  out_position :: "nat option"

datatype ready_state = CONNECTING | OPEN | CLOSING | CLOSED

record websocket =
  ws_url :: string
  readyState :: ready_state

text \<open>
  What the hook takes from its surroundings: the constant \<open>BACKEND_URL\<close>, whether the
  \<open>WebSocket\<close> constructor accepts a URL (it throws otherwise), and the \<open>try\<close> block of
  \<open>onmessage\<close> up to the read of \<open>data.type\<close>, which yields the parsed message or
  throws (\<open>JSON.parse\<close> on malformed text, or the property read on a parsed \<open>null\<close>).
\<close>

record ws_env =
  BACKEND_URL :: string
  url_accepted :: "string \<Rightarrow> bool"
  JSON_parse :: "string \<Rightarrow> ws_message option"

text \<open>
  The hook's state: its three \<open>useState\<close> cells, its three refs, and the browser's
  side of it: the timers that are running (identifier and delay in milliseconds), the
  URLs of the sockets constructed so far and the messages sent.
\<close>

record ws_hook =
  isConnected :: bool
  lastMessage :: "ws_message option"
  connectionError :: "string option"
  wsRef :: "websocket option"
  reconnectTimeoutRef :: "nat option"
  pingIntervalRef :: "nat option"
  intervals :: "(nat \<times> nat) list"
  timeouts :: "(nat \<times> nat) list"
  next_timer :: nat
  created :: "string list"
  sent :: "outbound list"

definition ws_hook_init :: ws_hook where
  "ws_hook_init =
     \<lparr>isConnected = False, lastMessage = None, connectionError = None, wsRef = None,
      reconnectTimeoutRef = None, pingIntervalRef = None, intervals = [], timeouts = [],
      next_timer = 0, created = [], sent = []\<rparr>"

definition clearTimer :: "nat option \<Rightarrow> (nat \<times> nat) list \<Rightarrow> (nat \<times> nat) list" where
  \<comment> \<open>\<open>clearInterval\<close>/\<open>clearTimeout\<close>: an unknown or absent identifier clears nothing.\<close>
  "clearTimer r ts = (case r of None \<Rightarrow> ts | Some i \<Rightarrow> filter (\<lambda>t. fst t \<noteq> i) ts)"

definition ping :: outbound where
  "ping = \<lparr>out_type = ''ping'', out_position = None\<rparr>"

definition ws_send :: "ws_hook \<Rightarrow> outbound \<Rightarrow> ws_hook" where
  \<comment> \<open>\<open>if (wsRef.current?.readyState === WebSocket.OPEN) wsRef.current.send(...)\<close>\<close>
  "ws_send h m =
     (case wsRef h of
        None \<Rightarrow> h
      | Some w \<Rightarrow> if readyState w = OPEN then h\<lparr>sent := sent h @ [m]\<rparr> else h)"

definition connect :: "ws_env \<Rightarrow> string option \<Rightarrow> string option \<Rightarrow> ws_hook \<Rightarrow> ws_hook" where
  \<comment> \<open>Lines 12-18 and 58-61: the guard, the constructor, the \<open>catch\<close>.\<close>
  "connect env gameId playerId h =
     (if falsy gameId \<or> falsy playerId then h
      else
        case (gameId, playerId) of
          (Some g, Some p) \<Rightarrow>
            let wsUrl = getWebSocketUrl (BACKEND_URL env) g p in
            if url_accepted env wsUrl
            then h\<lparr>wsRef := Some \<lparr>ws_url = wsUrl, readyState = CONNECTING\<rparr>,
                   created := created h @ [wsUrl]\<rparr>
            else h\<lparr>connectionError := Some ''Failed to connect''\<rparr>
        | _ \<Rightarrow> h)"

definition onopen :: "ws_hook \<Rightarrow> ws_hook" where
  \<comment> \<open>Lines 19-29: \<open>setInterval(..., 30000)\<close> stored in \<open>pingIntervalRef\<close>.\<close>
  "onopen h =
     h\<lparr>isConnected := True, connectionError := None,
       pingIntervalRef := Some (next_timer h),
       intervals := intervals h @ [(next_timer h, 30000)],
       next_timer := Suc (next_timer h)\<rparr>"

definition ping_tick :: "ws_hook \<Rightarrow> ws_hook" where
  \<comment> \<open>The interval's callback, lines 24-28.\<close>
  "ping_tick h = ws_send h ping"

definition onmessage :: "ws_env \<Rightarrow> ws_hook \<Rightarrow> string \<Rightarrow> ws_hook" where
  \<comment> \<open>Lines 31-40; the \<open>catch\<close> only logs.\<close>
  "onmessage env h event_data =
     (case JSON_parse env event_data of
        None \<Rightarrow> h
      | Some d \<Rightarrow> if msg_type d \<noteq> Some ''pong'' then h\<lparr>lastMessage := Some d\<rparr> else h)"

definition onclose :: "ws_hook \<Rightarrow> ws_hook" where
  \<comment> \<open>Lines 42-52: \<open>clearInterval\<close>, then \<open>setTimeout(..., 2000)\<close> in \<open>reconnectTimeoutRef\<close>.\<close>
  "onclose h =
     h\<lparr>isConnected := False,
       intervals := clearTimer (pingIntervalRef h) (intervals h),
       reconnectTimeoutRef := Some (next_timer h),
       timeouts := timeouts h @ [(next_timer h, 2000)],
       next_timer := Suc (next_timer h)\<rparr>"

definition reconnect_callback ::
  "ws_env \<Rightarrow> string option \<Rightarrow> string option \<Rightarrow> ws_hook \<Rightarrow> ws_hook" where
  \<comment> \<open>The timeout's callback, lines 48-50.\<close>
  "reconnect_callback env gameId playerId h =
     (if \<not> falsy gameId \<and> \<not> falsy playerId then connect env gameId playerId h else h)"

definition onerror :: "ws_hook \<Rightarrow> ws_hook" where
  "onerror h = h\<lparr>connectionError := Some ''Connection error''\<rparr>"

definition disconnect :: "ws_hook \<Rightarrow> ws_hook" where
  \<comment> \<open>Lines 64-73.\<close>
  "disconnect h =
     h\<lparr>timeouts := clearTimer (reconnectTimeoutRef h) (timeouts h),
       intervals := clearTimer (pingIntervalRef h) (intervals h),
       wsRef := None, isConnected := False\<rparr>"

definition sendMove :: "ws_hook \<Rightarrow> nat \<Rightarrow> ws_hook" where
  "sendMove h pos = ws_send h \<lparr>out_type = ''move'', out_position = Some pos\<rparr>"

text \<open>
  The events that drive the hook: the mount effect (\<open>connect\<close>) and its cleanup
  (\<open>disconnect\<close>), the exported \<open>reconnect\<close> and \<open>sendMove\<close>, the four socket
  callbacks and the two timers. The browser calls a socket callback only when a socket
  was constructed, after setting the \<open>readyState\<close> of the socket (the model follows the
  socket held in \<open>wsRef\<close>), and a timer callback only for a timer that is running; a
  timeout runs once. The arguments \<open>gameId\<close> and \<open>playerId\<close> of the hook are fixed over
  a run.
\<close>

datatype ws_event =
    Mount
  | Unmount
  | Reconnect
  | SendMove nat
  | SocketOpen
  | SocketMessage string
  | SocketClose
  | SocketError
  | IntervalFires nat
  | TimeoutFires nat

definition set_readyState :: "ready_state \<Rightarrow> ws_hook \<Rightarrow> ws_hook" where
  "set_readyState r h =
     (case wsRef h of None \<Rightarrow> h | Some w \<Rightarrow> h\<lparr>wsRef := Some (w\<lparr>readyState := r\<rparr>)\<rparr>)"

definition ws_step ::
  "ws_env \<Rightarrow> string option \<Rightarrow> string option \<Rightarrow> ws_hook \<Rightarrow> ws_event \<Rightarrow> ws_hook" where
  "ws_step env gameId playerId h ev =
     (case ev of
        Mount \<Rightarrow> connect env gameId playerId h
      | Unmount \<Rightarrow> disconnect h
      | Reconnect \<Rightarrow> connect env gameId playerId h
      | SendMove pos \<Rightarrow> sendMove h pos
      | SocketOpen \<Rightarrow> if created h = [] then h else onopen (set_readyState OPEN h)
      | SocketMessage d \<Rightarrow> if created h = [] then h else onmessage env h d
      | SocketClose \<Rightarrow> if created h = [] then h else onclose (set_readyState CLOSED h)
      | SocketError \<Rightarrow> if created h = [] then h else onerror h
      | IntervalFires i \<Rightarrow> if i \<in> fst ` set (intervals h) then ping_tick h else h
      | TimeoutFires i \<Rightarrow>
          if i \<in> fst ` set (timeouts h)
          then reconnect_callback env gameId playerId
                 (h\<lparr>timeouts := filter (\<lambda>t. fst t \<noteq> i) (timeouts h)\<rparr>)
          else h)"

definition ws_run ::
  "ws_env \<Rightarrow> string option \<Rightarrow> string option \<Rightarrow> ws_hook \<Rightarrow> ws_event list \<Rightarrow> ws_hook" where
  "ws_run env gameId playerId h evs = foldl (ws_step env gameId playerId) h evs"

definition never_connected :: "ws_hook \<Rightarrow> bool" where
  \<comment> \<open>No socket was ever constructed and the connected flag is off.\<close>
  "never_connected h = (created h = [] \<and> wsRef h = None \<and> \<not> isConnected h)"

section \<open>GameBoard and GameCell\<close>

definition GameCell_disabled :: "bool \<Rightarrow> board \<Rightarrow> nat \<Rightarrow> bool" where
  \<comment> \<open>GameBoard passes \<open>disabled={disabled || cell !== null}\<close> to the cell at \<open>index\<close>.\<close>
  "GameCell_disabled disabled b index = (disabled \<or> b ! index \<noteq> None)"

section \<open>GamePage\<close>

record game_page =
  gameId :: string
  page_player :: "player option"
  page_game :: "game option"
  page_loading :: bool
  actionLoading :: bool

definition useWebSocket_gameId :: "game_page \<Rightarrow> string option" where
  \<comment> \<open>The hook's first argument: \<open>game?.mode === 'online' ? gameId : null\<close>.\<close>
  "useWebSocket_gameId pg =
     (case page_game pg of
        None \<Rightarrow> None
      | Some g \<Rightarrow> if mode g = Online then Some (gameId pg) else None)"

definition useWebSocket_playerId :: "game_page \<Rightarrow> string option" where
  \<comment> \<open>The hook's second argument: \<open>player?.id\<close>.\<close>
  "useWebSocket_playerId pg = map_option player_id (page_player pg)"

definition isPlayerX :: "game_page \<Rightarrow> game \<Rightarrow> bool" where
  \<comment> \<open>\<open>player?.id === game.player_x_id\<close>\<close>
  "isPlayerX pg g = (map_option player_id (page_player pg) = Some (player_x_id g))"

definition isMyTurn :: "game_page \<Rightarrow> game \<Rightarrow> bool" where
  "isMyTurn pg g =
     ((current_turn (state g) = X_mark \<and> isPlayerX pg g) \<or>
      (current_turn (state g) = O_mark \<and> \<not> isPlayerX pg g))"

definition handleCellClick :: "game_page \<Rightarrow> nat \<Rightarrow> game_page \<times> effect list" where
  \<comment> \<open>Lines 72-85, up to the \<open>await\<close>. Without a player the read of \<open>player.id\<close> throws
      inside the \<open>try\<close>: the \<open>catch\<close> shows the toast and \<open>finally\<close> resets the flag.\<close>
  "handleCellClick pg pos =
     (case page_game pg of
        None \<Rightarrow> (pg, [])
      | Some g \<Rightarrow>
          if status g \<noteq> In_progress \<or> actionLoading pg then (pg, [])
          else if mode g = Local \<or> isMyTurn pg g then
            (case page_player pg of
               None \<Rightarrow> (pg\<lparr>actionLoading := False\<rparr>, [Toast Error ''Failed to make move''])
             | Some p \<Rightarrow>
                 (pg\<lparr>actionLoading := True\<rparr>,
                  [Request (makeMove (gameId pg) (player_id p) pos)]))
          else (pg, []))"

definition winner_name :: "game \<Rightarrow> string" where
  \<comment> \<open>\<open>state.winner === 'X' ? player_x_username : player_o_username\<close>, in a template.\<close>
  "winner_name g =
     (if winner (state g) = Some X_mark then player_x_username g
      else template_nullable (player_o_username g))"

definition makeMove_settled ::
  "game_page \<Rightarrow> string option + game \<Rightarrow> game_page \<times> effect list" where
  \<comment> \<open>Lines 85-103, after the \<open>await\<close>: the server's answer is the updated game, or an
      error with an optional \<open>detail\<close> (\<open>detail || 'Failed to make move'\<close>).\<close>
  "makeMove_settled pg answer =
     (case answer of
        Inr updatedGame \<Rightarrow>
          (pg\<lparr>page_game := Some updatedGame, actionLoading := False\<rparr>,
           if status updatedGame = Completed
           then (if is_draw (state updatedGame) then [Toast Info ''It's a draw!'']
                 else [Toast Success (winner_name updatedGame @ '' wins!'')])
           else [])
      | Inl detail \<Rightarrow>
          (pg\<lparr>actionLoading := False\<rparr>,
           [Toast Error
              (case detail of
                 None \<Rightarrow> ''Failed to make move''
               | Some d \<Rightarrow> if d = [] then ''Failed to make move'' else d)]))"

definition board_disabled :: "game_page \<Rightarrow> game \<Rightarrow> bool" where
  \<comment> \<open>Line 298: \<open>disabled={isGameOver || game.status === 'waiting' || actionLoading}\<close>\<close>
  "board_disabled pg g = (status g = Completed \<or> status g = Waiting \<or> actionLoading pg)"

definition click_cell :: "game_page \<Rightarrow> nat \<Rightarrow> game_page \<times> effect list" where
  \<comment> \<open>A click on the cell at \<open>index\<close>. The board is rendered once the page has loaded a
      game, with one button for each cell of the board; a disabled button dispatches no
      click.\<close>
  "click_cell pg index =
     (case page_game pg of
        None \<Rightarrow> (pg, [])
      | Some g \<Rightarrow>
          if page_loading pg \<or> length (board (state g)) \<le> index then (pg, [])
          else if GameCell_disabled (board_disabled pg g) (board (state g)) index then (pg, [])
          else handleCellClick pg index)"

definition on_lastMessage :: "game_page \<Rightarrow> ws_message option \<Rightarrow> game_page \<times> effect list" where
  \<comment> \<open>Lines 48-63: the effect that runs when \<open>lastMessage\<close> changes.\<close>
  "on_lastMessage pg lm =
     (case lm of
        None \<Rightarrow> (pg, [])
      | Some m \<Rightarrow>
          if msg_type m = Some ''game_update'' \<or> msg_type m = Some ''connected'' \<or>
             msg_type m = Some ''player_joined''
          then (pg\<lparr>page_game := msg_game m\<rparr>,
                if msg_type m = Some ''player_joined''
                then [Toast Success ''Opponent joined the game!''] else [])
          else if msg_type m = Some ''player_disconnected''
          then (pg, [Toast Warning ''Opponent disconnected''])
          else if msg_type m = Some ''rematch_created''
          then (pg, [Toast Success ''Rematch starting...'',
                     Navigate (''/game/'' @ template_prop (new_game_id m))])
          else (pg, []))"

section \<open>ReplayPage and ReplayControls\<close>

text \<open>
  The replay payload as the page reads it: \<open>snapshots\<close> (each with a \<open>board\<close> and the
  \<open>move\<close> that produced it, \<open>null\<close> for the first), \<open>game\<close> and \<open>total_moves\<close>.
\<close>

record snapshot =
  snapshot_board :: board
  snapshot_move :: "move_entry option"

record replay_data =
  snapshots :: "snapshot list"
  replay_game :: game
  total_moves :: int

datatype speed = Half | Normal | One_and_half | Double






















definition read_snapshot :: "replay_data \<Rightarrow> int \<Rightarrow> snapshot option" where
  \<comment> \<open>\<open>replayData.snapshots[currentMoveIndex]\<close>: \<open>undefined\<close> outside the array.\<close>
  "read_snapshot d i =
     (if 0 \<le> i \<and> i < int (length (snapshots d)) then Some (snapshots d ! nat i) else None)"






section \<open>The server side, from the specification\<close>

text \<open>
  The server (Board Engine, Session Store, Replay Reconstructor) is not among the
  client's source files. The definitions of this section follow sections 3, 4.1, 4.2,
  4.5 and 7 of the specification; the client above is translated from its code.
\<close>

text \<open>
  Modelled from the spec: the error kinds of the operations' signatures (4.2) and of the
  taxonomy (7); the server's error type is not in the sources.
\<close>

datatype error_kind =
    NotFound
  | IllegalMove
  | IllegalCell
  | NotYourTurn
  | GameOver
  | AlreadyFull
  | SelfJoin
  | StaleWrite

subsection \<open>Board Engine\<close>

definition empty_board :: board where
  \<comment> \<open>Modelled from the spec: the Board Engine's starting board, 9 empty cells (3).\<close>
  "empty_board = replicate 9 None"

definition filled :: "board \<Rightarrow> nat" where
  \<comment> \<open>Modelled from the spec: the number of non-empty cells of a board (3).\<close>
  "filled b = length (filter (\<lambda>c. c \<noteq> None) b)"

definition mark_to_move :: "nat \<Rightarrow> mark" where
  \<comment> \<open>Modelled from the spec: the Board Engine's turn rule, X after an even number of
      moves and O after an odd number (3, X always moves first).\<close>
  "mark_to_move n = (if even n then X_mark else O_mark)"

definition apply_move :: "board \<Rightarrow> mark \<Rightarrow> nat \<Rightarrow> error_kind + board" where
  \<comment> \<open>Modelled from the spec: the Board Engine's \<open>apply(board, mark, cell)\<close> (4.1). It
      fails when the cell is outside 0-8, when the cell is occupied, and when it is not
      the mark's turn; the turn is read off the board, which holds as many marks as
      moves were made.\<close>
  "apply_move b m cell =
     (if 8 < cell \<or> length b \<le> cell then Inl IllegalMove
      else if b ! cell \<noteq> None then Inl IllegalMove
      else if m \<noteq> mark_to_move (filled b) then Inl IllegalMove
      else Inr (b[cell := Some m]))"

text \<open>
  Modelled from the spec: the results of \<open>evaluate\<close> (4.1): in progress, a win of a mark
  on a triple, or a draw.
\<close>

datatype outcome = Undecided | Win mark "nat list" | Draw

definition win_lines :: "nat list list" where
  \<comment> \<open>Modelled from the spec: the Board Engine's 8 fixed lines in scan order, 3 rows,
      3 columns, 2 diagonals (4.1).\<close>
  "win_lines =
     [[0, 1, 2], [3, 4, 5], [6, 7, 8], [0, 3, 6], [1, 4, 7], [2, 5, 8], [0, 4, 8], [2, 4, 6]]"

definition line_mark :: "board \<Rightarrow> nat list \<Rightarrow> mark option" where
  \<comment> \<open>Modelled from the spec: the Board Engine's test of one line for three equal
      non-empty marks (4.1).\<close>
  "line_mark b l =
     (case map (\<lambda>i. b ! i) l of
        [Some p, Some q, Some r] \<Rightarrow> if p = q \<and> q = r then Some p else None
      | _ \<Rightarrow> None)"

fun first_win :: "board \<Rightarrow> nat list list \<Rightarrow> (mark \<times> nat list) option" where
  \<comment> \<open>Modelled from the spec: the Board Engine's scan, reporting the first matching
      triple (4.1).\<close>
  "first_win b [] = None"
| "first_win b (l # ls) =
     (case line_mark b l of Some m \<Rightarrow> Some (m, l) | None \<Rightarrow> first_win b ls)"

definition evaluate :: "board \<Rightarrow> outcome" where
  \<comment> \<open>Modelled from the spec: the Board Engine's \<open>evaluate(board)\<close> (4.1); a draw is
      declared only when no win is found and all cells are filled.\<close>
  "evaluate b =
     (case first_win b win_lines of
        Some (m, l) \<Rightarrow> Win m l
      | None \<Rightarrow> if list_all (\<lambda>c. c \<noteq> None) b then Draw else Undecided)"

definition outcome_winner :: "outcome \<Rightarrow> mark option" where
  \<comment> \<open>Modelled from the spec: the stored outcome's winner mark, unset unless a win (3).\<close>
  "outcome_winner out = (case out of Win m l \<Rightarrow> Some m | _ \<Rightarrow> None)"

definition outcome_line :: "outcome \<Rightarrow> nat list option" where
  \<comment> \<open>Modelled from the spec: the stored outcome's winning triple, set when a win
      occurred (3).\<close>
  "outcome_line out = (case out of Win m l \<Rightarrow> Some l | _ \<Rightarrow> None)"

definition outcome_state :: "board \<Rightarrow> nat \<Rightarrow> game_state" where
  \<comment> \<open>Modelled from the spec: the Session Store's projections of a board after a number
      of moves: the turn from the parity, the outcome from \<open>evaluate\<close> (3, 4.2, 9).\<close>
  "outcome_state b n =
     \<lparr>board = b, current_turn = mark_to_move n,
      winner = outcome_winner (evaluate b), is_draw = (evaluate b = Draw),
      winning_line = outcome_line (evaluate b)\<rparr>"

fun board_after :: "board \<Rightarrow> move_entry list \<Rightarrow> error_kind + board" where
  \<comment> \<open>Modelled from the spec: \<open>fold(apply, board, move_log)\<close> (3, 8), the board after a
      sequence of moves.\<close>
  "board_after b [] = Inr b"
| "board_after b (m # ms) =
     (case apply_move b (symbol m) (position m) of
        Inl e \<Rightarrow> Inl e
      | Inr b' \<Rightarrow> board_after b' ms)"

subsection \<open>Session Store\<close>

definition create ::
  "string \<Rightarrow> string \<Rightarrow> game_mode \<Rightarrow> string \<Rightarrow> string \<Rightarrow> nat \<Rightarrow> game" where
  \<comment> \<open>Modelled from the spec: the Session Store's \<open>create(mode, creator_id)\<close> (4.2), given
      the fresh id and join code, the creator's username and the time: an online game
      waits for its second participant, a local game starts with both marks bound to
      the creator.\<close>
  "create new_id new_code m creator creator_name now =
     \<lparr>game_id = new_id, code = new_code, mode = m,
      status = (if m = Local then In_progress else Waiting),
      player_x_id = creator,
      player_o_id = (if m = Local then Some creator else None),
      player_x_username = creator_name,
      player_o_username = (if m = Local then Some creator_name else None),
      state = outcome_state empty_board 0, moves = [],
      created_at = now, completed_at = None, rematch_game_id = None\<rparr>"

definition join :: "game \<Rightarrow> string \<Rightarrow> string \<Rightarrow> error_kind + game" where
  \<comment> \<open>Modelled from the spec: the Session Store's \<open>join(game_id, participant_id)\<close> (4.2) on
      the game found under the id: it fails when the game is not waiting or already has
      its two participants, and when the joiner is the creator; otherwise it binds the
      second mark and starts the game.\<close>
  "join g participant participant_name =
     (if status g \<noteq> Waiting \<or> player_o_id g \<noteq> None then Inl AlreadyFull
      else if participant = player_x_id g then Inl SelfJoin
      else Inr (g\<lparr>player_o_id := Some participant,
                  player_o_username := Some participant_name,
                  status := In_progress\<rparr>))"

definition controls :: "game \<Rightarrow> string \<Rightarrow> mark \<Rightarrow> bool" where
  \<comment> \<open>Modelled from the spec: the Session Store's resolution of the mark a participant
      controls (4.2): the participant bound to the mark; in a local game both marks are
      bound to the creator.\<close>
  "controls g participant m =
     (case m of
        X_mark \<Rightarrow> participant = player_x_id g
      | O_mark \<Rightarrow> player_o_id g = Some participant)"

definition move :: "game \<Rightarrow> string \<Rightarrow> nat \<Rightarrow> nat \<Rightarrow> error_kind + game" where
  \<comment> \<open>Modelled from the spec: the Session Store's \<open>move(game_id, participant_id, cell)\<close>
      (4.2) on the game found under the id, at a given time. A completed game rejects
      with GameOver; a game that is not in progress, or a participant who does not
      control the expected mark, with NotYourTurn; a cell the Board Engine refuses with
      IllegalCell. Otherwise the move is appended to the log and the board, the turn,
      the outcome and the status are recomputed.\<close>
  "move g participant cell now =
     (if status g = Completed then Inl GameOver
      else if status g \<noteq> In_progress then Inl NotYourTurn
      else
        let expected = mark_to_move (length (moves g)) in
        if \<not> controls g participant expected then Inl NotYourTurn
        else
          case apply_move (board (state g)) expected cell of
            Inl e \<Rightarrow> Inl IllegalCell
          | Inr b \<Rightarrow>
              let log = moves g @ [\<lparr>symbol = expected, position = cell, timestamp = now\<rparr>] in
              Inr (g\<lparr>state := outcome_state b (length log), moves := log,
                      status := (if evaluate b = Undecided then In_progress else Completed),
                      completed_at := (if evaluate b = Undecided then None else Some now)\<rparr>))"

definition rematch_game :: "game \<Rightarrow> string \<Rightarrow> string \<Rightarrow> nat \<Rightarrow> game" where
  \<comment> \<open>Modelled from the spec: the new game that the Session Store's \<open>requestRematch\<close>
      creates from a completed source (4.2, 8): marks swapped, mode carried over, in
      progress, with an empty board and log.\<close>
  "rematch_game src new_id new_code now =
     \<lparr>game_id = new_id, code = new_code, mode = mode src, status = In_progress,
      player_x_id = (case player_o_id src of Some p \<Rightarrow> p | None \<Rightarrow> player_x_id src),
      player_o_id = Some (player_x_id src),
      player_x_username =
        (case player_o_username src of Some n \<Rightarrow> n | None \<Rightarrow> player_x_username src),
      player_o_username = Some (player_x_username src),
      state = outcome_state empty_board 0, moves = [],
      created_at = now, completed_at = None, rematch_game_id = None\<rparr>"

definition link_rematch :: "game \<Rightarrow> string \<Rightarrow> game option" where
  \<comment> \<open>Modelled from the spec: the one change the Session Store makes to a completed game
      (3, 4.2): its rematch link is set, at most once. The spec names no error kind for
      a refusal, hence the option.\<close>
  "link_rematch g new_id =
     (if status g = Completed \<and> rematch_game_id g = None
      then Some (g\<lparr>rematch_game_id := Some new_id\<rparr>) else None)"

text \<open>
  Modelled from the spec: the life of one game (3, 4.2). It starts as created, or as the
  new game of a rematch, and is then changed only by the three operations above. A
  rejected operation leaves the stored game as it was.
\<close>

datatype session_op =
    Join string string
  | Move string nat nat
  | Link_rematch string

definition session_step :: "game \<Rightarrow> session_op \<Rightarrow> game" where
  \<comment> \<open>Modelled from the spec: the Session Store's handling of one operation on a stored
      game; an illegal attempt leaves the state unchanged (4.1, 8).\<close>
  "session_step g op =
     (case op of
        Join p n \<Rightarrow> (case join g p n of Inl e \<Rightarrow> g | Inr g' \<Rightarrow> g')
      | Move p cell now \<Rightarrow> (case move g p cell now of Inl e \<Rightarrow> g | Inr g' \<Rightarrow> g')
      | Link_rematch new_id \<Rightarrow> (case link_rematch g new_id of None \<Rightarrow> g | Some g' \<Rightarrow> g'))"

definition session :: "game \<Rightarrow> session_op list \<Rightarrow> game" where
  \<comment> \<open>Modelled from the spec: the Session Store applying operations to one game, one at
      a time (3, 5).\<close>
  "session g ops = foldl session_step g ops"

definition game_inv :: "game \<Rightarrow> bool" where
  \<comment> \<open>Modelled from the spec: the invariants of a stored game (3, 9): the board has 9
      cells, holds as many marks as the log has moves and is the fold of the log; turn
      and outcome are the projections of board and log; the game is completed exactly
      when its board is decided.\<close>
  "game_inv g =
     (length (board (state g)) = 9 \<and>
      filled (board (state g)) = length (moves g) \<and>
      board_after empty_board (moves g) = Inr (board (state g)) \<and>
      outcome_state (board (state g)) (length (moves g)) = state g \<and>
      (status g = Completed \<longleftrightarrow> evaluate (board (state g)) \<noteq> Undecided))"

subsection \<open>Replay Reconstructor\<close>

fun snapshots_from :: "board \<Rightarrow> move_entry list \<Rightarrow> error_kind + snapshot list" where
  \<comment> \<open>Modelled from the spec: the Replay Reconstructor's left-to-right fold of the move
      log through the Board Engine's \<open>apply\<close> (4.5), pairing each board with the move
      that produced it.\<close>
  "snapshots_from b [] = Inr []"
| "snapshots_from b (m # ms) =
     (case apply_move b (symbol m) (position m) of
        Inl e \<Rightarrow> Inl e
      | Inr b' \<Rightarrow>
          (case snapshots_from b' ms of
             Inl e \<Rightarrow> Inl e
           | Inr ss \<Rightarrow> Inr (\<lparr>snapshot_board = b', snapshot_move = Some m\<rparr> # ss)))"

definition reconstruct :: "game \<Rightarrow> error_kind + snapshot list" where
  \<comment> \<open>Modelled from the spec: the Replay Reconstructor's \<open>reconstruct(game)\<close> (4.5); index
      0 is the empty board, produced by no move.\<close>
  "reconstruct g =
     (case snapshots_from empty_board (moves g) of
        Inl e \<Rightarrow> Inl e
      | Inr ss \<Rightarrow> Inr (\<lparr>snapshot_board = empty_board, snapshot_move = None\<rparr> # ss))"

definition get_replay :: "game \<Rightarrow> error_kind + replay_data" where
  \<comment> \<open>Modelled from the spec: the request surface's fetch replay (6): the reconstructed
      snapshot sequence, the final game with its move log, and the number of moves
      under the name the page reads, \<open>total_moves\<close>.\<close>
  "get_replay g =
     (case reconstruct g of
        Inl e \<Rightarrow> Inl e
      | Inr ss \<Rightarrow>
          Inr \<lparr>snapshots = ss, replay_game = g, total_moves = int (length (moves g))\<rparr>)"

section \<open>Concrete inputs\<close>

text \<open>
  On text of ASCII characters the two string methods do the following: \<open>toUpperCase\<close>
  maps \<open>a\<close>..\<open>z\<close> to \<open>A\<close>..\<open>Z\<close> and keeps every other character, \<open>trim\<close> removes
  leading and trailing space, TAB, LF, VT, FF and CR. The concrete inputs below are ASCII
  text, and only on such text do \<open>ascii_js\<close> and the runtime agree.
\<close>

definition ascii_upper_table :: "(char \<times> char) list" where
  "ascii_upper_table = zip ''abcdefghijklmnopqrstuvwxyz'' ''ABCDEFGHIJKLMNOPQRSTUVWXYZ''"

definition ascii_char_upper :: "char \<Rightarrow> char" where
  "ascii_char_upper c = (case map_of ascii_upper_table c of Some u \<Rightarrow> u | None \<Rightarrow> c)"

definition ascii_is_space :: "char \<Rightarrow> bool" where
  "ascii_is_space c =
     (c \<in> set [CHR '' '', CHR 0x09, CHR 0x0A, CHR 0x0B, CHR 0x0C, CHR 0x0D])"

definition ascii_js :: js_string where
  "ascii_js =
     \<lparr>toUpperCase = map ascii_char_upper,
      trim = (\<lambda>s. rev (dropWhile ascii_is_space (rev (dropWhile ascii_is_space s))))\<rparr>"

definition demo_player :: player where
  "demo_player = \<lparr>player_id = ''p1'', username = ''ann''\<rparr>"

definition demo_home :: home_page where
  "demo_home = \<lparr>home_player = Some demo_player, home_loading = False, gameCode = []\<rparr>"

definition demo_state_O :: game_state where
  "demo_state_O =
     \<lparr>board = [Some X_mark, None, None, None, None, None, None, None, None],
      current_turn = O_mark, winner = None, is_draw = False, winning_line = None\<rparr>"

definition demo_online :: game where
  \<comment> \<open>An online game in progress between p1 (X) and p2 (O), O to move.\<close>
  "demo_online =
     \<lparr>game_id = ''g1'', code = ''AB12CD'', mode = Online, status = In_progress,
      player_x_id = ''p1'', player_o_id = Some ''p2'',
      player_x_username = ''ann'', player_o_username = Some ''bob'',
      state = demo_state_O,
      moves = [\<lparr>symbol = X_mark, position = 0, timestamp = 1\<rparr>],
      created_at = 0, completed_at = None, rematch_game_id = None\<rparr>"

definition demo_page :: "string \<Rightarrow> game \<Rightarrow> game_page" where
  \<comment> \<open>The game page of a viewer, holding a game.\<close>
  "demo_page viewer g =
     \<lparr>gameId = ''g1'', page_player = Some \<lparr>player_id = viewer, username = viewer\<rparr>,
      page_game = Some g, page_loading = False, actionLoading = False\<rparr>"

definition demo_message :: "string \<Rightarrow> ws_message" where
  "demo_message t =
     \<lparr>msg_type = Some t, msg_game = Some (demo_online\<lparr>status := Completed\<rparr>),
      new_game_id = Js_string ''g2''\<rparr>"

definition demo_env :: ws_env where
  "demo_env =
     \<lparr>BACKEND_URL = ''http://localhost:8080'', url_accepted = (\<lambda>u. True),
      JSON_parse =
        (\<lambda>s. if s = ''pong''
             then Some \<lparr>msg_type = Some ''pong'', msg_game = None, new_game_id = Js_absent\<rparr>
             else if s = ''bye''
             then Some \<lparr>msg_type = Some ''player_disconnected'', msg_game = None,
                        new_game_id = Js_absent\<rparr>
             else None)\<rparr>"


definition demo_local :: game where
  \<comment> \<open>A local game of p1, just started.\<close>
  "demo_local =
     \<lparr>game_id = ''g0'', code = ''LOCAL1'', mode = Local, status = In_progress,
      player_x_id = ''p1'', player_o_id = Some ''p1'',
      player_x_username = ''ann'', player_o_username = Some ''ann'',
      state =
        \<lparr>board = [None, None, None, None, None, None, None, None, None],
         current_turn = X_mark, winner = None, is_draw = False, winning_line = None\<rparr>,
      moves = [], created_at = 0, completed_at = None, rematch_game_id = None\<rparr>"

definition demo_local_page :: game_page where
  "demo_local_page =
     \<lparr>gameId = ''g0'', page_player = Some \<lparr>player_id = ''p1'', username = ''ann''\<rparr>,
      page_game = Some demo_local, page_loading = False, actionLoading = False\<rparr>"



definition demo_ops :: "session_op list" where
  "demo_ops =
     [Move ''p1'' 0 1, Move ''p1'' 1 2, Move ''p1'' 3 3, Move ''p1'' 4 4, Move ''p1'' 6 5]"

definition demo_final :: game where
  "demo_final =
     \<lparr>game_id = ''g0'', code = ''LOCAL1'', mode = Local, status = Completed,
      player_x_id = ''p1'', player_o_id = Some ''p1'',
      player_x_username = ''ann'', player_o_username = Some ''ann'',
      state =
        \<lparr>board = [Some X_mark, Some O_mark, None, Some X_mark, Some O_mark, None,
                  Some X_mark, None, None],
         current_turn = O_mark, winner = Some X_mark, is_draw = False,
         winning_line = Some [0, 3, 6]\<rparr>,
      moves =
        [\<lparr>symbol = X_mark, position = 0, timestamp = 1\<rparr>,
         \<lparr>symbol = O_mark, position = 1, timestamp = 2\<rparr>,
         \<lparr>symbol = X_mark, position = 3, timestamp = 3\<rparr>,
         \<lparr>symbol = O_mark, position = 4, timestamp = 4\<rparr>,
         \<lparr>symbol = X_mark, position = 6, timestamp = 5\<rparr>],
      created_at = 0, completed_at = Some 5, rematch_game_id = None\<rparr>"








section \<open>Theorems\<close>

subsection \<open>Move-history coordinates\<close>

lemma js_rem_nonneg: "0 \<le> a \<Longrightarrow> js_rem a 3 = a mod 3"
  by (cases "a = 0") (simp_all add: js_rem_def)

lemma cells_enum: "{0..8::int} = {0, 1, 2, 3, 4, 5, 6, 7, 8}"
  by auto

lemma coord_nonneg: "0 \<le> p \<Longrightarrow> coord p = (p div 3 + 1, p mod 3 + 1)"
  by (simp add: coord_def coord_row_def coord_col_def js_rem_nonneg)

lemma coord_inj_on_cells: "inj_on coord {0..8}"
proof (rule inj_onI)
  fix p q :: int
  assume p: "p \<in> {0..8}" and q: "q \<in> {0..8}" and eq: "coord p = coord q"
  from p q eq have "p div 3 = q div 3" and "p mod 3 = q mod 3"
    by (simp_all add: coord_nonneg)
  then show "p = q"
    by (metis div_mult_mod_eq)
qed

lemma coord_image_cells: "coord ` {0..8} = {1, 2, 3} \<times> {1, 2, 3}"
proof -
  have "coord ` {0, 1, 2, 3, 4, 5, 6, 7, 8} = {1, 2, 3} \<times> {1, 2, 3}"
    by (auto simp add: coord_nonneg)
  then show ?thesis
    by (simp only: cells_enum)
qed

text \<open>
  C9. The coordinate mapping of the move history prints the pair \<open>coord p\<close>; it sends a
  cell index \<open>p \<ge> 0\<close> to \<open>(floor(p/3) + 1, (p mod 3) + 1)\<close>, and it is a bijection
  between the cell indices 0..8 and the pairs \<open>{1,2,3} \<times> {1,2,3}\<close>: every index lands
  in that set, distinct indices get distinct coordinates, and every pair is reached.
\<close>

theorem positionToCoord_bijection:
  "positionToCoord p =
     ''('' @ js_num_str (fst (coord p)) @ '','' @ js_num_str (snd (coord p)) @ '')'' \<and>
   (0 \<le> p \<longrightarrow> coord p = (p div 3 + 1, p mod 3 + 1)) \<and>
   bij_betw coord {0..8} ({1, 2, 3} \<times> {1, 2, 3})"
proof -
  have "bij_betw coord {0..8} ({1, 2, 3} \<times> {1, 2, 3})"
    unfolding bij_betw_def using coord_inj_on_cells coord_image_cells by blast
  moreover have "positionToCoord p =
     ''('' @ js_num_str (fst (coord p)) @ '','' @ js_num_str (snd (coord p)) @ '')''"
    by (simp add: positionToCoord_def coord_def)
  ultimately show ?thesis
    by (simp add: coord_nonneg)
qed

theorem positionToCoord_bijection_witness:
  "(0::int) \<le> 7 \<and> coord 7 = (3, 2) \<and> positionToCoord 7 = ''(3,2)'' \<and>
   bij_betw coord {0..8} ({1, 2, 3} \<times> {1, 2, 3})"
proof -
  have "positionToCoord 7 = ''(3,2)''"
    by (simp add: positionToCoord_def coord_row_def coord_col_def js_rem_def js_num_str_def
        digit_char_def)
  moreover from positionToCoord_bijection [of 7]
  have "coord 7 = (3, 2)" and "bij_betw coord {0..8} ({1, 2, 3} \<times> {1, 2, 3})"
    by simp_all
  ultimately show ?thesis
    by simp
qed

subsection \<open>Join codes\<close>

lemma click_join_request:
  assumes "Request r \<in> set (snd (click_join js hp))"
  shows "length (gameCode hp) = 6 \<and>
         transmitted_code r = Some (BStr (toUpperCase js (trim js (gameCode hp))))"
  using assms
  by (auto simp add: click_join_def join_disabled_def handleJoinByCode_def joinGameByCode_def
      transmitted_code_def split: if_splits option.splits)

text \<open>
  C8 (as amended). Whatever the runtime's \<open>toUpperCase\<close> and \<open>trim\<close> do: the code sent by
  the lookup-by-code and the join-by-code request is exactly the upper-case form of the
  code the function is given. In the join dialog the held code is the upper-case form of
  the entered text and the input carries \<open>maxLength\<close> 6. A join request leaves the
  dialog only when the held code, the upper-case form of the entry, has exactly 6
  characters (so the entry has 6 characters whenever upper-casing keeps its length). The
  dialog passes the held code through \<open>trim\<close> before the call, so the code sent is the
  upper-case form of the trimmed held code; it is the upper-case form of the entry
  whenever trimming leaves the held code as it is and upper-casing it again changes
  nothing.
\<close>

theorem join_code_uppercase:
  "transmitted_code (joinGameByCode js c pid) = Some (BStr (toUpperCase js c)) \<and>
   path (getGameByCode js c) = ''/games/by-code/'' @ toUpperCase js c \<and>
   gameCode (gameCode_onChange js hp v) = toUpperCase js v \<and>
   input_value (game_code_input (gameCode_onChange js hp v)) = toUpperCase js v \<and>
   input_maxLength (game_code_input hp) = 6 \<and>
   (Request r \<in> set (snd (click_join js (gameCode_onChange js hp v))) \<longrightarrow>
      length (toUpperCase js v) = 6 \<and>
      (length (toUpperCase js v) = length v \<longrightarrow> length v = 6) \<and>
      transmitted_code r =
        Some (BStr (toUpperCase js (trim js (toUpperCase js v)))) \<and>
      (trim js (toUpperCase js v) = toUpperCase js v \<and>
       toUpperCase js (toUpperCase js v) = toUpperCase js v \<longrightarrow>
         transmitted_code r = Some (BStr (toUpperCase js v))))"
proof -
  have api: "transmitted_code (joinGameByCode js c pid) = Some (BStr (toUpperCase js c))"
    by (simp add: transmitted_code_def joinGameByCode_def)
  have lookup: "path (getGameByCode js c) = ''/games/by-code/'' @ toUpperCase js c"
    by (simp add: getGameByCode_def)
  have held: "gameCode (gameCode_onChange js hp v) = toUpperCase js v"
    by (simp add: gameCode_onChange_def)
  have shown: "input_value (game_code_input (gameCode_onChange js hp v)) = toUpperCase js v"
    and cap: "input_maxLength (game_code_input hp) = 6"
    by (simp_all add: game_code_input_def gameCode_onChange_def)
  have dialog: "length (toUpperCase js v) = 6 \<and>
      (length (toUpperCase js v) = length v \<longrightarrow> length v = 6) \<and>
      transmitted_code r =
        Some (BStr (toUpperCase js (trim js (toUpperCase js v)))) \<and>
      (trim js (toUpperCase js v) = toUpperCase js v \<and>
       toUpperCase js (toUpperCase js v) = toUpperCase js v \<longrightarrow>
         transmitted_code r = Some (BStr (toUpperCase js v)))"
    if "Request r \<in> set (snd (click_join js (gameCode_onChange js hp v)))"
  proof -
    from click_join_request [OF that]
    have "length (toUpperCase js v) = 6" and
      "transmitted_code r = Some (BStr (toUpperCase js (trim js (toUpperCase js v))))"
      by (simp_all add: held)
    then show ?thesis
      by simp
  qed
  from api lookup held shown cap dialog show ?thesis
    by blast
qed

lemma ascii_upper_ab12cd: "toUpperCase ascii_js ''ab12cd'' = ''AB12CD''"
  by (simp add: ascii_js_def ascii_char_upper_def ascii_upper_table_def)

lemma ascii_upper_padded: "toUpperCase ascii_js '' ab12 '' = '' AB12 ''"
  by (simp add: ascii_js_def ascii_char_upper_def ascii_upper_table_def)

lemma ascii_upper_fixed:
  "toUpperCase ascii_js ''AB12CD'' = ''AB12CD''" "toUpperCase ascii_js ''AB12'' = ''AB12''"
  by (simp_all add: ascii_js_def ascii_char_upper_def ascii_upper_table_def)

lemma ascii_trim_examples:
  "trim ascii_js ''AB12CD'' = ''AB12CD''" "trim ascii_js '' AB12 '' = ''AB12''"
  by (simp_all add: ascii_js_def ascii_is_space_def)

theorem join_code_uppercase_witness:
  "snd (click_join ascii_js (gameCode_onChange ascii_js demo_home ''ab12cd'')) =
     [Request (joinGameByCode ascii_js ''AB12CD'' ''p1'')] \<and>
   length ''ab12cd'' = 6 \<and> toUpperCase ascii_js ''ab12cd'' = ''AB12CD'' \<and>
   transmitted_code (joinGameByCode ascii_js ''AB12CD'' ''p1'') = Some (BStr ''AB12CD'') \<and>
   snd (click_join ascii_js (gameCode_onChange ascii_js demo_home ''ab12c'')) = []"
proof -
  have sent: "snd (click_join ascii_js (gameCode_onChange ascii_js demo_home ''ab12cd'')) =
     [Request (joinGameByCode ascii_js ''AB12CD'' ''p1'')]"
    by (simp add: click_join_def join_disabled_def handleJoinByCode_def gameCode_onChange_def
        demo_home_def demo_player_def ascii_upper_ab12cd ascii_trim_examples)
  have short: "snd (click_join ascii_js (gameCode_onChange ascii_js demo_home ''ab12c'')) = []"
    by (simp add: click_join_def join_disabled_def gameCode_onChange_def demo_home_def
        ascii_js_def)
  from sent have "Request (joinGameByCode ascii_js ''AB12CD'' ''p1'') \<in>
      set (snd (click_join ascii_js (gameCode_onChange ascii_js demo_home ''ab12cd'')))"
    by simp
  with join_code_uppercase [of ascii_js "''ab12cd''" "''p1''" demo_home "''ab12cd''"
      "joinGameByCode ascii_js ''AB12CD'' ''p1''"]
  have "transmitted_code (joinGameByCode ascii_js ''AB12CD'' ''p1'') = Some (BStr ''AB12CD'')"
    by (simp add: ascii_upper_ab12cd ascii_upper_fixed ascii_trim_examples)
  with sent short ascii_upper_ab12cd show ?thesis
    by simp
qed

text \<open>
  The claim as first stated fails: the entry \<open>' ab12 '\<close> has 6 characters, so the Join
  button is enabled, and the request sent carries \<open>'AB12'\<close>, which is not the upper-case
  form \<open>' AB12 '\<close> of the entry.
\<close>

theorem join_code_uppercase_counterexample:
  "length '' ab12 '' = 6 \<and>
   snd (click_join ascii_js (gameCode_onChange ascii_js demo_home '' ab12 '')) =
     [Request (joinGameByCode ascii_js ''AB12'' ''p1'')] \<and>
   transmitted_code (joinGameByCode ascii_js ''AB12'' ''p1'') = Some (BStr ''AB12'') \<and>
   toUpperCase ascii_js '' ab12 '' = '' AB12 '' \<and>
   transmitted_code (joinGameByCode ascii_js ''AB12'' ''p1'') \<noteq>
     Some (BStr (toUpperCase ascii_js '' ab12 ''))"
  by (simp add: click_join_def join_disabled_def handleJoinByCode_def gameCode_onChange_def
      joinGameByCode_def transmitted_code_def demo_home_def demo_player_def
      ascii_upper_padded ascii_upper_fixed ascii_trim_examples)

subsection \<open>GamePage\<close>

text \<open>
  C4. What the cell-click handler submits. For a signed-in viewer of a game in progress
  with no move pending, a move request is sent exactly when the game is local, or it is
  X's turn and the viewer is the participant bound to X, or it is O's turn and the viewer
  is not the participant bound to X. In local mode the move is therefore always sent,
  whichever mark's turn it is; in online mode the participant bound to X moves only on
  X's turn and the participant bound to O only on O's turn. The handler never reads
  \<open>player_o_id\<close>: on O's turn it also sends the move of a viewer bound to neither
  mark.
\<close>

theorem handleCellClick_submission:
  assumes "page_game pg = Some g" and "page_player pg = Some p"
    and "status g = In_progress" and "\<not> actionLoading pg"
  shows "handleCellClick pg pos =
     (if mode g = Local \<or> (current_turn (state g) = X_mark \<and> player_id p = player_x_id g)
          \<or> (current_turn (state g) = O_mark \<and> player_id p \<noteq> player_x_id g)
      then (pg\<lparr>actionLoading := True\<rparr>, [Request (makeMove (gameId pg) (player_id p) pos)])
      else (pg, []))"
  using assms by (auto simp add: handleCellClick_def isMyTurn_def isPlayerX_def)

theorem handleCellClick_submission_witness:
  "player_x_id demo_online = ''p1'' \<and> player_o_id demo_online = Some ''p2'' \<and>
   mode demo_online = Online \<and> current_turn (state demo_online) = O_mark \<and>
   handleCellClick (demo_page ''p3'' demo_online) 4 =
     ((demo_page ''p3'' demo_online)\<lparr>actionLoading := True\<rparr>,
      [Request (makeMove ''g1'' ''p3'' 4)]) \<and>
   handleCellClick (demo_page ''p1'' demo_online) 4 = (demo_page ''p1'' demo_online, [])"
proof -
  have g: "player_x_id demo_online = ''p1''" "player_o_id demo_online = Some ''p2''"
    "mode demo_online = Online" "current_turn (state demo_online) = O_mark"
    "status demo_online = In_progress"
    by (simp_all add: demo_online_def demo_state_O_def)
  have pg: "page_game (demo_page v demo_online) = Some demo_online"
    "page_player (demo_page v demo_online) = Some \<lparr>player_id = v, username = v\<rparr>"
    "\<not> actionLoading (demo_page v demo_online)" "gameId (demo_page v demo_online) = ''g1''"
    for v
    by (simp_all add: demo_page_def)
  from handleCellClick_submission [OF pg(1) pg(2) g(5) pg(3), of "''p3''" 4] g pg(4)
  have a: "handleCellClick (demo_page ''p3'' demo_online) 4 =
     ((demo_page ''p3'' demo_online)\<lparr>actionLoading := True\<rparr>,
      [Request (makeMove ''g1'' ''p3'' 4)])"
    by simp
  from handleCellClick_submission [OF pg(1) pg(2) g(5) pg(3), of "''p1''" 4] g
  have b: "handleCellClick (demo_page ''p1'' demo_online) 4 = (demo_page ''p1'' demo_online, [])"
    by simp
  from g a b show ?thesis
    by simp
qed

text \<open>
  C5. A click that must be rejected has no effect. When the held game is not in progress
  (it is waiting or completed), the cell-click handler returns the page unchanged and
  sends nothing, every cell of the board is disabled, and so a click on any cell leaves
  the page unchanged and sends no request. An occupied cell is disabled in every game,
  and a click on it leaves the page unchanged and sends no request.
\<close>

theorem rejected_clicks_have_no_effect:
  assumes "page_game pg = Some g"
  shows "(status g \<noteq> In_progress \<longrightarrow>
            handleCellClick pg i = (pg, []) \<and> click_cell pg i = (pg, []) \<and>
            GameCell_disabled (board_disabled pg g) (board (state g)) i) \<and>
         (i < length (board (state g)) \<and> board (state g) ! i \<noteq> None \<longrightarrow>
            GameCell_disabled (board_disabled pg g) (board (state g)) i \<and>
            click_cell pg i = (pg, []))"
proof -
  have closed: "board_disabled pg g" if "status g \<noteq> In_progress"
    using that by (cases "status g") (simp_all add: board_disabled_def)
  have handler: "handleCellClick pg i = (pg, [])" if "status g \<noteq> In_progress"
    using that assms by (simp add: handleCellClick_def)
  show ?thesis
    using assms closed handler
    by (auto simp add: click_cell_def GameCell_disabled_def)
qed

theorem rejected_clicks_have_no_effect_witness:
  "page_game (demo_page ''p2'' demo_online) = Some demo_online \<and>
   board (state demo_online) ! 0 \<noteq> None \<and>
   click_cell (demo_page ''p2'' demo_online) 0 = (demo_page ''p2'' demo_online, []) \<and>
   status (demo_online\<lparr>status := Completed\<rparr>) \<noteq> In_progress \<and>
   handleCellClick (demo_page ''p2'' (demo_online\<lparr>status := Completed\<rparr>)) 1 =
     (demo_page ''p2'' (demo_online\<lparr>status := Completed\<rparr>), []) \<and>
   snd (click_cell (demo_page ''p2'' demo_online) 1) = [Request (makeMove ''g1'' ''p2'' 1)]"
proof -
  have g: "page_game (demo_page ''p2'' demo_online) = Some demo_online"
    and g': "page_game (demo_page ''p2'' (demo_online\<lparr>status := Completed\<rparr>)) =
             Some (demo_online\<lparr>status := Completed\<rparr>)"
    by (simp_all add: demo_page_def)
  have occ: "(0::nat) < length (board (state demo_online))" "board (state demo_online) ! 0 \<noteq> None"
    by (simp_all add: demo_online_def demo_state_O_def)
  have fin: "status (demo_online\<lparr>status := Completed\<rparr>) \<noteq> In_progress"
    by simp
  have free: "snd (click_cell (demo_page ''p2'' demo_online) 1) = [Request (makeMove ''g1'' ''p2'' 1)]"
    by (simp add: click_cell_def GameCell_disabled_def board_disabled_def handleCellClick_def
        isMyTurn_def isPlayerX_def demo_page_def demo_online_def demo_state_O_def)
  from rejected_clicks_have_no_effect [OF g, of 0] occ
  have a: "click_cell (demo_page ''p2'' demo_online) 0 = (demo_page ''p2'' demo_online, [])"
    by simp
  from rejected_clicks_have_no_effect [OF g', of 1] fin
  have b: "handleCellClick (demo_page ''p2'' (demo_online\<lparr>status := Completed\<rparr>)) 1 =
     (demo_page ''p2'' (demo_online\<lparr>status := Completed\<rparr>), [])"
    by simp
  from g occ fin free a b show ?thesis
    by simp
qed

text \<open>
  C6. The effect of a push message on the game page. A \<open>player_disconnected\<close> message
  leaves the page, and with it the held game, unchanged and navigates nowhere: it only
  shows a warning. A \<open>game_update\<close>, \<open>connected\<close> or \<open>player_joined\<close> message replaces the
  held game by the game it carries. A \<open>rematch_created\<close> message navigates to the page
  of the new game id it carries.
\<close>

theorem push_message_effects:
  "(msg_type m = Some ''player_disconnected'' \<longrightarrow>
      on_lastMessage pg (Some m) = (pg, [Toast Warning ''Opponent disconnected'']) \<and>
      navigations_of (snd (on_lastMessage pg (Some m))) = []) \<and>
   (msg_type m \<in> {Some ''game_update'', Some ''connected'', Some ''player_joined''} \<longrightarrow>
      fst (on_lastMessage pg (Some m)) = pg\<lparr>page_game := msg_game m\<rparr> \<and>
      navigations_of (snd (on_lastMessage pg (Some m))) = []) \<and>
   (msg_type m = Some ''rematch_created'' \<longrightarrow>
      fst (on_lastMessage pg (Some m)) = pg \<and>
      navigations_of (snd (on_lastMessage pg (Some m))) =
        [''/game/'' @ template_prop (new_game_id m)]) \<and>
   (msg_type m = Some ''rematch_created'' \<and> new_game_id m = Js_string new_id \<longrightarrow>
      navigations_of (snd (on_lastMessage pg (Some m))) = [''/game/'' @ new_id])"
  by (auto simp add: on_lastMessage_def navigations_of_def template_prop_def)

theorem push_message_effects_witness:
  "on_lastMessage (demo_page ''p1'' demo_online) (Some (demo_message ''player_disconnected'')) =
     (demo_page ''p1'' demo_online, [Toast Warning ''Opponent disconnected'']) \<and>
   page_game (fst (on_lastMessage (demo_page ''p1'' demo_online)
       (Some (demo_message ''game_update'')))) = Some (demo_online\<lparr>status := Completed\<rparr>) \<and>
   navigations_of (snd (on_lastMessage (demo_page ''p1'' demo_online)
       (Some (demo_message ''rematch_created'')))) = [''/game/g2'']"
proof -
  have t: "msg_type (demo_message ''player_disconnected'') = Some ''player_disconnected''"
    "msg_type (demo_message ''game_update'') \<in>
       {Some ''game_update'', Some ''connected'', Some ''player_joined''}"
    "msg_type (demo_message ''rematch_created'') = Some ''rematch_created''"
    by (simp_all add: demo_message_def)
  from push_message_effects [of "demo_message ''player_disconnected''" "demo_page ''p1'' demo_online"] t(1)
  have a: "on_lastMessage (demo_page ''p1'' demo_online) (Some (demo_message ''player_disconnected'')) =
     (demo_page ''p1'' demo_online, [Toast Warning ''Opponent disconnected''])"
    by blast
  from push_message_effects [of "demo_message ''game_update''" "demo_page ''p1'' demo_online"] t(2)
  have b: "page_game (fst (on_lastMessage (demo_page ''p1'' demo_online)
       (Some (demo_message ''game_update'')))) = Some (demo_online\<lparr>status := Completed\<rparr>)"
    by (simp add: demo_message_def)
  from push_message_effects [of "demo_message ''rematch_created''" "demo_page ''p1'' demo_online"] t(3)
  have c: "navigations_of (snd (on_lastMessage (demo_page ''p1'' demo_online)
       (Some (demo_message ''rematch_created'')))) = [''/game/g2'']"
    by (simp add: demo_message_def template_prop_def)
  from a b c show ?thesis
    by simp
qed

subsection \<open>useWebSocket\<close>

lemma connect_falsy: "falsy gid \<or> falsy pid \<Longrightarrow> connect env gid pid h = h"
  by (auto simp add: connect_def)

lemma ws_step_never_connected:
  assumes "falsy gid \<or> falsy pid" and "never_connected h"
  shows "never_connected (ws_step env gid pid h ev)"
proof (cases ev)
  case Mount
  with assms show ?thesis by (simp add: ws_step_def connect_falsy)
next
  case Unmount
  with assms show ?thesis by (simp add: ws_step_def disconnect_def never_connected_def)
next
  case Reconnect
  with assms show ?thesis by (simp add: ws_step_def connect_falsy)
next
  case (SendMove pos)
  with assms show ?thesis
    by (simp add: ws_step_def sendMove_def ws_send_def never_connected_def)
next
  case SocketOpen
  with assms show ?thesis by (simp add: ws_step_def never_connected_def)
next
  case (SocketMessage d)
  with assms show ?thesis by (simp add: ws_step_def never_connected_def)
next
  case SocketClose
  with assms show ?thesis by (simp add: ws_step_def never_connected_def)
next
  case SocketError
  with assms show ?thesis by (simp add: ws_step_def never_connected_def)
next
  case (IntervalFires i)
  with assms show ?thesis
    by (simp add: ws_step_def ping_tick_def ws_send_def never_connected_def)
next
  case (TimeoutFires i)
  with assms show ?thesis
    by (auto simp add: ws_step_def reconnect_callback_def never_connected_def)
qed

lemma ws_run_never_connected:
  assumes "falsy gid \<or> falsy pid" and "never_connected h"
  shows "never_connected (ws_run env gid pid h evs)"
  using assms(2)
proof (induction evs arbitrary: h)
  case Nil
  then show ?case by (simp add: ws_run_def)
next
  case (Cons ev evs)
  from Cons.IH [OF ws_step_never_connected [OF assms(1) Cons.prems]]
  show ?case by (simp add: ws_run_def)
qed

lemma never_connected_init: "never_connected ws_hook_init"
  by (simp add: never_connected_def ws_hook_init_def)

text \<open>
  C10. A game that is not online never gets a push connection. When the held game's mode
  is not online, the page passes no game id to the hook; \<open>connect\<close> does nothing when
  the game id or the player id is missing; hence, whatever events reach the hook, no
  socket is ever constructed and the connected flag stays off.
\<close>

theorem local_game_never_connects:
  assumes "page_game pg = Some g" and "mode g \<noteq> Online"
  shows "useWebSocket_gameId pg = None \<and>
         (falsy gid \<or> falsy pid \<longrightarrow> connect env gid pid h = h) \<and>
         created (ws_run env (useWebSocket_gameId pg) (useWebSocket_playerId pg)
                    ws_hook_init evs) = [] \<and>
         wsRef (ws_run env (useWebSocket_gameId pg) (useWebSocket_playerId pg)
                    ws_hook_init evs) = None \<and>
         \<not> isConnected (ws_run env (useWebSocket_gameId pg) (useWebSocket_playerId pg)
                    ws_hook_init evs)"
proof -
  from assms have none: "useWebSocket_gameId pg = None"
    by (simp add: useWebSocket_gameId_def)
  then have "falsy (useWebSocket_gameId pg) \<or> falsy (useWebSocket_playerId pg)"
    by (simp add: falsy_def)
  from ws_run_never_connected [OF this never_connected_init]
  have "never_connected (ws_run env (useWebSocket_gameId pg) (useWebSocket_playerId pg)
                    ws_hook_init evs)" .
  with none show ?thesis
    by (simp add: never_connected_def connect_falsy)
qed

theorem local_game_never_connects_witness:
  "page_game demo_local_page = Some demo_local \<and> mode demo_local \<noteq> Online \<and>
   useWebSocket_gameId demo_local_page = None \<and>
   created (ws_run demo_env (useWebSocket_gameId demo_local_page)
      (useWebSocket_playerId demo_local_page) ws_hook_init
      [Mount, SocketOpen, IntervalFires 0, SocketClose, TimeoutFires 1, Reconnect]) = [] \<and>
   \<not> isConnected (ws_run demo_env (useWebSocket_gameId demo_local_page)
      (useWebSocket_playerId demo_local_page) ws_hook_init
      [Mount, SocketOpen, IntervalFires 0, SocketClose, TimeoutFires 1, Reconnect]) \<and>
   created (ws_run demo_env (Some ''g1'') (Some ''p1'') ws_hook_init [Mount]) =
     [''ws://localhost:8080/api/ws/g1/p1'']"
proof -
  have g: "page_game demo_local_page = Some demo_local" and m: "mode demo_local \<noteq> Online"
    by (simp_all add: demo_local_page_def demo_local_def)
  have online: "created (ws_run demo_env (Some ''g1'') (Some ''p1'') ws_hook_init [Mount]) =
     [''ws://localhost:8080/api/ws/g1/p1'']"
    by (simp add: ws_run_def ws_step_def connect_def falsy_def getWebSocketUrl_def
        strip_scheme_def demo_env_def ws_hook_init_def Let_def)
  note inst = local_game_never_connects [OF g m, where env = demo_env and gid = None
      and pid = None and h = ws_hook_init
      and evs = "[Mount, SocketOpen, IntervalFires 0, SocketClose, TimeoutFires 1, Reconnect]"]
  from inst g m online show ?thesis
    by blast
qed




subsection \<open>Replay controls\<close>

lemma MoveHistory_items_fst:
  "map fst (MoveHistory_items ms) = 0 # map (\<lambda>k. int k + 1) [0..<length ms]"
proof -
  have "map fst (MoveHistory_items ms) =
        0 # map (\<lambda>k. int k + 1) (map fst (enumerate 0 ms))"
    by (simp add: MoveHistory_items_def case_prod_beta o_def del: map_fst_enumerate)
  then show ?thesis
    by simp
qed






subsection \<open>Session Store and Replay Reconstructor\<close>

lemma filled_update:
  "c < length b \<Longrightarrow> b ! c = None \<Longrightarrow> filled (b[c := Some m]) = Suc (filled b)"
proof (induction b arbitrary: c)
  case Nil
  then show ?case by simp
next
  case (Cons x xs)
  show ?case
  proof (cases c)
    case 0
    with Cons.prems show ?thesis by (simp add: filled_def)
  next
    case (Suc k)
    with Cons.prems have "filled (xs[k := Some m]) = Suc (filled xs)"
      by (simp add: Cons.IH)
    with Suc show ?thesis by (simp add: filled_def)
  qed
qed

lemma apply_move_Inr:
  assumes "apply_move b m c = Inr b'"
  shows "b' = b[c := Some m]" and "length b' = length b" and "filled b' = Suc (filled b)"
    and "m = mark_to_move (filled b)"
proof -
  from assms have c: "c < length b" and e: "b ! c = None" and m: "m = mark_to_move (filled b)"
    and b': "b' = b[c := Some m]"
    by (auto simp add: apply_move_def split: if_splits)
  from b' show "b' = b[c := Some m]" .
  from b' show "length b' = length b" by simp
  from b' c e show "filled b' = Suc (filled b)" by (simp add: filled_update)
  from m show "m = mark_to_move (filled b)" .
qed

lemma board_after_append:
  "board_after b (ms @ [m]) =
     (case board_after b ms of
        Inl e \<Rightarrow> Inl e
      | Inr b' \<Rightarrow> apply_move b' (symbol m) (position m))"
  by (induction ms arbitrary: b) (simp_all split: sum.splits)

lemma filled_empty_board: "filled empty_board = 0"
  by (simp add: filled_def empty_board_def)

lemma empty_board_cells: "empty_board = [None, None, None, None, None, None, None, None, None]"
  by (simp add: empty_board_def eval_nat_numeral)

lemma evaluate_empty_board: "evaluate empty_board = Undecided"
  by (simp add: evaluate_def win_lines_def line_mark_def empty_board_cells)

lemma length_empty_board: "length empty_board = 9"
  by (simp add: empty_board_def)

lemma state_outcome_state: "board (outcome_state b k) = b"
  by (simp add: outcome_state_def)

lemma game_inv_create: "game_inv (create i c m p n t)"
  by (simp add: game_inv_def create_def state_outcome_state filled_empty_board
      evaluate_empty_board length_empty_board)

lemma game_inv_rematch_game: "game_inv (rematch_game src i c t)"
  by (simp add: game_inv_def rematch_game_def state_outcome_state filled_empty_board
      evaluate_empty_board length_empty_board)

lemma game_inv_join:
  assumes "game_inv g" and "join g p n = Inr g'"
  shows "game_inv g'"
proof -
  from assms(2) have w: "status g = Waiting"
    and g': "g' = g\<lparr>player_o_id := Some p, player_o_username := Some n, status := In_progress\<rparr>"
    by (auto simp add: join_def split: if_splits)
  from assms(1) w have "evaluate (board (state g)) = Undecided"
    by (simp add: game_inv_def)
  with assms(1) g' show ?thesis
    by (simp add: game_inv_def)
qed

lemma game_inv_link_rematch:
  assumes "game_inv g" and "link_rematch g i = Some g'"
  shows "game_inv g'"
  using assms by (auto simp add: link_rematch_def game_inv_def split: if_splits)

lemma move_Inr:
  assumes "move g p c t = Inr g'"
  shows "\<exists>b. apply_move (board (state g)) (mark_to_move (length (moves g))) c = Inr b \<and>
     g' = g\<lparr>state := outcome_state b (Suc (length (moves g))),
            moves := moves g @ [\<lparr>symbol = mark_to_move (length (moves g)), position = c, timestamp = t\<rparr>],
            status := (if evaluate b = Undecided then In_progress else Completed),
            completed_at := (if evaluate b = Undecided then None else Some t)\<rparr>"
proof (cases "apply_move (board (state g)) (mark_to_move (length (moves g))) c")
  case (Inl e)
  with assms show ?thesis
    by (simp add: move_def Let_def split: if_splits)
next
  case (Inr b)
  with assms show ?thesis
    by (simp add: move_def Let_def split: if_splits)
qed

lemma game_inv_move:
  assumes inv: "game_inv g" and mv: "move g p c t = Inr g'"
  shows "game_inv g'"
proof -
  let ?x = "mark_to_move (length (moves g))"
  let ?log = "moves g @ [\<lparr>symbol = ?x, position = c, timestamp = t\<rparr>]"
  from move_Inr [OF mv] obtain b where ap: "apply_move (board (state g)) ?x c = Inr b"
    and g': "g' = g\<lparr>state := outcome_state b (Suc (length (moves g))), moves := ?log,
                    status := (if evaluate b = Undecided then In_progress else Completed),
                    completed_at := (if evaluate b = Undecided then None else Some t)\<rparr>"
    by blast
  from inv [unfolded game_inv_def] have len: "length (board (state g)) = 9"
    and fil: "filled (board (state g)) = length (moves g)"
    and fold: "board_after empty_board (moves g) = Inr (board (state g))"
    by blast+
  from apply_move_Inr(2,3) [OF ap] len fil
  have l: "length b = 9" and f: "filled b = length ?log"
    by simp_all
  from fold ap have a: "board_after empty_board ?log = Inr b"
    by (simp add: board_after_append)
  from g' have st: "outcome_state b (length ?log) = state g'" and ms: "moves g' = ?log"
    and stat: "status g' = (if evaluate b = Undecided then In_progress else Completed)"
    by simp_all
  from g' have bd: "board (state g') = b"
    by (simp add: state_outcome_state)
  from stat have "status g' = Completed \<longleftrightarrow> evaluate b \<noteq> Undecided"
    by simp
  with l f a st ms bd show ?thesis
    by (simp add: game_inv_def)
qed

lemma game_inv_session_step:
  assumes "game_inv g"
  shows "game_inv (session_step g op)"
proof (cases op)
  case (Join p n)
  with assms show ?thesis
    by (auto simp add: session_step_def split: sum.splits intro: game_inv_join)
next
  case (Move p c t)
  with assms show ?thesis
    by (auto simp add: session_step_def split: sum.splits intro: game_inv_move)
next
  case (Link_rematch i)
  with assms show ?thesis
    by (auto simp add: session_step_def split: option.splits intro: game_inv_link_rematch)
qed

lemma game_inv_session:
  assumes "game_inv g"
  shows "game_inv (session g ops)"
  using assms
proof (induction ops arbitrary: g)
  case Nil
  then show ?case by (simp add: session_def)
next
  case (Cons op ops)
  from Cons.IH [OF game_inv_session_step [OF Cons.prems]]
  show ?case by (simp add: session_def)
qed

lemma snapshots_from_board_after:
  "board_after b ms = Inr b' \<Longrightarrow>
   \<exists>ss. snapshots_from b ms = Inr ss \<and> length ss = length ms \<and>
        (\<forall>i<length ms. board_after b (take (Suc i) ms) = Inr (snapshot_board (ss ! i)) \<and>
                        snapshot_move (ss ! i) = Some (ms ! i))"
proof (induction ms arbitrary: b)
  case Nil
  then show ?case by simp
next
  case (Cons m ms)
  from Cons.prems obtain b1 where ap: "apply_move b (symbol m) (position m) = Inr b1"
    and rest: "board_after b1 ms = Inr b'"
    by (auto split: sum.splits)
  from Cons.IH [OF rest] obtain ss where ss: "snapshots_from b1 ms = Inr ss"
    and len: "length ss = length ms"
    and nth: "\<And>i. i < length ms \<Longrightarrow>
        board_after b1 (take (Suc i) ms) = Inr (snapshot_board (ss ! i)) \<and>
        snapshot_move (ss ! i) = Some (ms ! i)"
    by blast
  let ?ss = "\<lparr>snapshot_board = b1, snapshot_move = Some m\<rparr> # ss"
  from ap ss have "snapshots_from b (m # ms) = Inr ?ss"
    by simp
  moreover from len have "length ?ss = length (m # ms)"
    by simp
  moreover have "board_after b (take (Suc i) (m # ms)) = Inr (snapshot_board (?ss ! i)) \<and>
        snapshot_move (?ss ! i) = Some ((m # ms) ! i)" if "i < length (m # ms)" for i
  proof (cases i)
    case 0
    with ap show ?thesis by simp
  next
    case (Suc k)
    with that have "k < length ms" by simp
    from nth [OF this] ap Suc show ?thesis by simp
  qed
  ultimately show ?case
    by blast
qed

lemma reconstruct_ok:
  assumes "game_inv g"
  shows "\<exists>ss. reconstruct g = Inr ss \<and> length ss = length (moves g) + 1 \<and>
      ss ! 0 = \<lparr>snapshot_board = empty_board, snapshot_move = None\<rparr> \<and>
      (\<forall>i. 1 \<le> i \<and> i \<le> length (moves g) \<longrightarrow>
         board_after empty_board (take i (moves g)) = Inr (snapshot_board (ss ! i)) \<and>
         snapshot_move (ss ! i) = Some (moves g ! (i - 1))) \<and>
      snapshot_board (ss ! length (moves g)) = board (state g)"
proof -
  from assms [unfolded game_inv_def]
  have fold: "board_after empty_board (moves g) = Inr (board (state g))"
    by blast
  from snapshots_from_board_after [OF fold] obtain ss
    where ss: "snapshots_from empty_board (moves g) = Inr ss"
      and len: "length ss = length (moves g)"
      and nth: "\<And>i. i < length (moves g) \<Longrightarrow>
        board_after empty_board (take (Suc i) (moves g)) = Inr (snapshot_board (ss ! i)) \<and>
        snapshot_move (ss ! i) = Some (moves g ! i)"
    by blast
  let ?s0 = "\<lparr>snapshot_board = empty_board, snapshot_move = None\<rparr>"
  from ss have r: "reconstruct g = Inr (?s0 # ss)"
    by (simp add: reconstruct_def)
  have idx: "board_after empty_board (take i (moves g)) = Inr (snapshot_board ((?s0 # ss) ! i)) \<and>
         snapshot_move ((?s0 # ss) ! i) = Some (moves g ! (i - 1))"
    if "1 \<le> i \<and> i \<le> length (moves g)" for i
  proof -
    from that obtain k where k: "i = Suc k" and "k < length (moves g)"
      by (cases i) simp_all
    from nth [OF this(2)] k show ?thesis
      by simp
  qed
  have fin: "snapshot_board ((?s0 # ss) ! length (moves g)) = board (state g)"
  proof (cases "moves g")
    case Nil
    with fold show ?thesis by simp
  next
    case (Cons m ms)
    then have "1 \<le> length (moves g) \<and> length (moves g) \<le> length (moves g)"
      by simp
    from idx [OF this] fold show ?thesis
      by simp
  qed
  from r len idx fin show ?thesis
    by auto
qed

lemma length_MoveHistory_items: "length (MoveHistory_items ms) = length ms + 1"
  by (simp add: MoveHistory_items_def)

lemma game_inv_initial:
  assumes "g0 = create i c m p n t \<or> g0 = rematch_game src i c t"
  shows "game_inv (session g0 ops)"
  using assms game_inv_create game_inv_rematch_game game_inv_session by blast

text \<open>
  C2. The replay payload of a game. For every game the Session Store can hold (created, or
  started by a rematch, then changed by joins, moves and the rematch link), the replay
  is produced, and its snapshot sequence has one entry more than the move log has moves;
  entry 0 is the empty board with no move, which the move history lists as its entry 0,
  Start; entry \<open>k\<close> for \<open>1 \<le> k \<le> n\<close> holds the board after the first \<open>k\<close> moves
  together with move \<open>k\<close>, the one that produced it; \<open>total_moves\<close> is the number of
  moves, and the page's read of the snapshot at every index from 0 to \<open>total_moves\<close>
  finds an entry.
\<close>

theorem replay_snapshot_sequence:
  assumes "g0 = create i c m p n t \<or> g0 = rematch_game src i c t"
    and "g = session g0 ops"
  shows "\<exists>rd. get_replay g = Inr rd \<and> replay_game rd = g \<and>
      total_moves rd = int (length (moves g)) \<and>
      length (snapshots rd) = length (moves g) + 1 \<and>
      snapshots rd ! 0 = \<lparr>snapshot_board = empty_board, snapshot_move = None\<rparr> \<and>
      (\<forall>k. 1 \<le> k \<and> k \<le> length (moves g) \<longrightarrow>
         board_after empty_board (take k (moves g)) = Inr (snapshot_board (snapshots rd ! k)) \<and>
         snapshot_move (snapshots rd ! k) = Some (moves g ! (k - 1))) \<and>
      length (MoveHistory_items (moves g)) = length (moves g) + 1 \<and>
      MoveHistory_items (moves g) ! 0 = (0, Start) \<and>
      (\<forall>j. 0 \<le> j \<and> j \<le> total_moves rd \<longrightarrow>
         read_snapshot rd j = Some (snapshots rd ! nat j))"
proof -
  from game_inv_initial [OF assms(1)] assms(2) have "game_inv g"
    by simp
  from reconstruct_ok [OF this] obtain ss where r: "reconstruct g = Inr ss"
    and len: "length ss = length (moves g) + 1"
    and s0: "ss ! 0 = \<lparr>snapshot_board = empty_board, snapshot_move = None\<rparr>"
    and nth: "\<forall>i. 1 \<le> i \<and> i \<le> length (moves g) \<longrightarrow>
         board_after empty_board (take i (moves g)) = Inr (snapshot_board (ss ! i)) \<and>
         snapshot_move (ss ! i) = Some (moves g ! (i - 1))"
    by blast
  let ?rd = "\<lparr>snapshots = ss, replay_game = g, total_moves = int (length (moves g))\<rparr>"
  from r have "get_replay g = Inr ?rd"
    by (simp add: get_replay_def)
  moreover from len have "\<forall>j. 0 \<le> j \<and> j \<le> total_moves ?rd \<longrightarrow>
         read_snapshot ?rd j = Some (snapshots ?rd ! nat j)"
    by (simp add: read_snapshot_def)
  moreover have "MoveHistory_items (moves g) ! 0 = (0, Start)"
    by (simp add: MoveHistory_items_def)
  ultimately show ?thesis
    using len s0 nth length_MoveHistory_items [of "moves g"]
    by (intro exI [of _ ?rd]) simp
qed







lemma demo_session: "session demo_local demo_ops = demo_final"
  by (simp add: session_def demo_ops_def demo_local_def session_step_def move_def
      controls_def mark_to_move_def apply_move_def filled_def outcome_state_def evaluate_def
      win_lines_def line_mark_def outcome_winner_def outcome_line_def empty_board_cells
      demo_final_def Let_def)

lemma demo_initial:
  "demo_local = create ''g0'' ''LOCAL1'' Local ''p1'' ''ann'' 0 \<or>
   demo_local = rematch_game demo_final ''g0'' ''LOCAL1'' 0"
proof -
  from evaluate_empty_board
  have "evaluate [None, None, None, None, None, None, None, None, None] = Undecided"
    by (simp only: empty_board_cells)
  then have "demo_local = create ''g0'' ''LOCAL1'' Local ''p1'' ''ann'' 0"
    by (simp add: demo_local_def create_def outcome_state_def mark_to_move_def
        outcome_winner_def outcome_line_def empty_board_cells)
  then show ?thesis
    by blast
qed














theorem replay_snapshot_sequence_witness:
  "\<exists>rd. get_replay (session demo_local demo_ops) = Inr rd \<and>
     total_moves rd = 5 \<and> length (snapshots rd) = 6 \<and>
     snapshots rd ! 0 = \<lparr>snapshot_board = empty_board, snapshot_move = None\<rparr> \<and>
     snapshots rd ! 2 =
       \<lparr>snapshot_board = [Some X_mark, Some O_mark, None, None, None, None, None, None, None],
        snapshot_move = Some \<lparr>symbol = O_mark, position = 1, timestamp = 2\<rparr>\<rparr> \<and>
     read_snapshot rd 5 = Some (snapshots rd ! 5) \<and>
     map fst (MoveHistory_items (moves (session demo_local demo_ops))) = [0, 1, 2, 3, 4, 5]"
proof -
  let ?g = "session demo_local demo_ops"
  from replay_snapshot_sequence [OF demo_initial refl, of demo_ops]
  obtain rd where rd: "get_replay ?g = Inr rd"
    and tot: "total_moves rd = int (length (moves ?g))"
    and len: "length (snapshots rd) = length (moves ?g) + 1"
    and s0: "snapshots rd ! 0 = \<lparr>snapshot_board = empty_board, snapshot_move = None\<rparr>"
    and nth: "\<forall>k. 1 \<le> k \<and> k \<le> length (moves ?g) \<longrightarrow>
         board_after empty_board (take k (moves ?g)) = Inr (snapshot_board (snapshots rd ! k)) \<and>
         snapshot_move (snapshots rd ! k) = Some (moves ?g ! (k - 1))"
    and reads: "\<forall>j. 0 \<le> j \<and> j \<le> total_moves rd \<longrightarrow>
         read_snapshot rd j = Some (snapshots rd ! nat j)"
    by blast
  from tot have tot5: "total_moves rd = 5"
    by (simp add: demo_session demo_final_def)
  from len have len6: "length (snapshots rd) = 6"
    by (simp add: demo_session demo_final_def)
  from nth [THEN spec, of 2] have "board_after empty_board (take 2 (moves ?g)) =
        Inr (snapshot_board (snapshots rd ! 2)) \<and>
      snapshot_move (snapshots rd ! 2) = Some (moves ?g ! (2 - 1))"
    by (simp add: demo_session demo_final_def)
  then have "snapshot_board (snapshots rd ! 2) =
        [Some X_mark, Some O_mark, None, None, None, None, None, None, None]"
    and "snapshot_move (snapshots rd ! 2) =
        Some \<lparr>symbol = O_mark, position = 1, timestamp = 2\<rparr>"
    by (simp_all add: demo_session demo_final_def apply_move_def mark_to_move_def filled_def
        empty_board_cells)
  then have s2: "snapshots rd ! 2 =
       \<lparr>snapshot_board = [Some X_mark, Some O_mark, None, None, None, None, None, None, None],
        snapshot_move = Some \<lparr>symbol = O_mark, position = 1, timestamp = 2\<rparr>\<rparr>"
    by (cases "snapshots rd ! 2") simp
  from reads tot5 have r5: "read_snapshot rd 5 = Some (snapshots rd ! 5)"
    by simp
  have hist: "map fst (MoveHistory_items (moves ?g)) = [0, 1, 2, 3, 4, 5]"
    by (simp add: MoveHistory_items_fst demo_session demo_final_def upt_rec)
  from rd tot5 len6 s0 s2 r5 hist show ?thesis
    by (intro exI [of _ rd]) simp
qed

end
